theory Spec2Isabelle
  imports Main "HOL-Library.Sublist"
begin

section \<open>Values\<close>

text \<open>
  The values that cross the data-access layer. \<open>SqlValue\<close> of sql.js is
  \<open>number | string | Uint8Array | null\<close>; the layer's own arguments are typed
  \<open>unknown\<close>. One datatype carries both: \<open>JOther s\<close> is any value outside the
  listed shapes, kept as the text \<open>String(value)\<close> gives for it. Numbers are only carried,
  compared and printed by the code modelled here, never computed on beyond counting, so they
  are integers.
\<close>

datatype jsvalue =
    JNull
  | JUndefined
  | JNumber int
  | JString string
  | JBoolean bool
  | JUint8Array "nat list"
  | JArrayBuffer "nat list"
  | JOther string

text \<open>A thrown value: \<open>new Error(message)\<close>, or anything that is not an \<open>Error\<close>.\<close>

datatype thrown = Error string | NonError

text \<open>\<open>Record<string, unknown>\<close> and the objects \<open>getAsObject\<close> returns: the entries
  in the order \<open>Object.entries\<close> enumerates them.\<close>

type_synonym jsrecord = "(string \<times> jsvalue) list"

definition INTERNAL_ROWID_COLUMN :: string where
  "INTERNAL_ROWID_COLUMN = ''__rowid__''"

text \<open>\<open>Array.prototype.join\<close>.\<close>

fun join :: "string \<Rightarrow> string list \<Rightarrow> string" where
  "join sep [] = []"
| "join sep [x] = x"
| "join sep (x # y # ys) = x @ sep @ join sep (y # ys)"

text \<open>\<open>identifier.replace(/"/g, '""')\<close> between two double quotes.\<close>

definition quoteIdentifier :: "string \<Rightarrow> string" where
  \<open>quoteIdentifier identifier =
     ''"'' @ concat (map (\<lambda>c. if c = CHR ''"'' then ''""'' else [c]) identifier) @ ''"''\<close>

fun normalizeValue :: "jsvalue \<Rightarrow> jsvalue" where
  "normalizeValue JNull = JNull"
| "normalizeValue JUndefined = JNull"
| "normalizeValue (JNumber n) = JNumber n"
| "normalizeValue (JString s) = JString s"
| "normalizeValue (JBoolean b) = JNumber (if b then 1 else 0)"
| "normalizeValue (JUint8Array bs) = JUint8Array bs"
| "normalizeValue (JArrayBuffer bs) = JUint8Array bs"
| "normalizeValue (JOther s) = JString s"

section \<open>Row identity\<close>

text \<open>
  \<open>RowIdentifier\<close>: both fields are optional. The code treats an undefined and a null
  \<open>rowid\<close> alike, so \<open>None\<close> stands for both; \<open>primaryKeyValues\<close> is absent or a record.
  The identifier itself is tested for falsiness by \<open>buildWhereClause\<close>, so the functions
  take an optional identifier.
\<close>

record RowIdentifier =
  rowid :: "int option"
  primaryKeyValues :: "jsrecord option"

definition buildWhereClause :: "RowIdentifier option \<Rightarrow> string \<times> jsvalue list" where
  "buildWhereClause identifier =
     (case identifier of
        None \<Rightarrow> ([], [])
      | Some i \<Rightarrow>
          (case rowid i of
             Some r \<Rightarrow> (''rowid = ?'', [normalizeValue (JNumber r)])
           | None \<Rightarrow>
               (case primaryKeyValues i of
                  None \<Rightarrow> ([], [])
                | Some kvs \<Rightarrow>
                    if length (map fst kvs) > 0
                    then
                      (let parts = map (\<lambda>(col, _). quoteIdentifier col @ '' = ?'') kvs;
                           params = map normalizeValue (map snd kvs)
                       in (join '' AND '' parts, params))
                    else ([], []))))"

subsection \<open>The clause as the specification words it\<close>

text \<open>
  The specification's three cases, written independently of the code: an identifier with a
  native row id; else one with primary-key values, whose clause is built column by column;
  else the invalid identifier.
\<close>

fun keyClause :: "jsrecord \<Rightarrow> string" where
  "keyClause [] = []"
| "keyClause [(col, v)] = quoteIdentifier col @ '' = ?''"
| "keyClause ((col, v) # kv # rest) = quoteIdentifier col @ '' = ? AND '' @ keyClause (kv # rest)"

fun keyParams :: "jsrecord \<Rightarrow> jsvalue list" where
  "keyParams [] = []"
| "keyParams ((col, v) # rest) = normalizeValue v # keyParams rest"

definition carriesRowId :: "RowIdentifier option \<Rightarrow> bool" where
  "carriesRowId identifier = (case identifier of None \<Rightarrow> False | Some i \<Rightarrow> rowid i \<noteq> None)"

definition carriesKeyValues :: "RowIdentifier option \<Rightarrow> bool" where
  "carriesKeyValues identifier =
     (case identifier of
        None \<Rightarrow> False
      | Some i \<Rightarrow> (case primaryKeyValues i of None \<Rightarrow> False | Some kvs \<Rightarrow> kvs \<noteq> []))"

definition whereClauseSpec :: "RowIdentifier option \<Rightarrow> string \<times> jsvalue list" where
  "whereClauseSpec identifier =
     (if carriesRowId identifier
      then (''rowid = ?'', [JNumber (the (rowid (the identifier)))])
      else if carriesKeyValues identifier
      then (keyClause (the (primaryKeyValues (the identifier))),
            keyParams (the (primaryKeyValues (the identifier))))
      else ([], []))"

section \<open>The engine, the store and the manager\<close>

text \<open>
  A prepared statement, seen through \<open>step\<close> and \<open>getAsObject\<close>: \<open>Row r rest\<close> is a
  step that returns true with the row object \<open>r\<close>, \<open>Done\<close> a step that returns false,
  \<open>Throws e\<close> a step that throws. Result sets are finite, and a statement that has
  returned false is not stepped to any effect afterwards.
\<close>

datatype cursor = Done | Row jsrecord cursor | Throws thrown

fun rowsThen :: "jsrecord list \<Rightarrow> cursor \<Rightarrow> cursor" where
  "rowsThen [] t = t"
| "rowsThen (r # rs) t = Row r (rowsThen rs t)"

text \<open>The statement of a query that produces exactly the rows \<open>rs\<close>.\<close>

definition rowsCursor :: "jsrecord list \<Rightarrow> cursor" where
  "rowsCursor rs = rowsThen rs Done"

record DatabaseInfo =
  info_id :: string
  info_name :: string
  info_size :: int
  uploadedAt :: string

record StoredDatabaseInfo =
  stored_id :: string
  stored_name :: string
  stored_size :: int
  stored_uploadedAt :: string
  buffer :: "nat list"

text \<open>
  The external collaborators are parameters of every operation. For a database in state
  \<open>d\<close>: \<open>db_prepare sql params d\<close> is \<open>db.prepare(sql)\<close> followed by \<open>bind(params)\<close>
  (\<open>Inl\<close> when either throws); \<open>db_exec\<close> and \<open>db_run\<close> return the thrown value, if any,
  and the state they leave; \<open>db_export\<close> is the database image. \<open>idb_put\<close> says whether
  the put of the stored record is rejected.
\<close>

record 'd environment =
  db_prepare :: "string \<Rightarrow> jsvalue list \<Rightarrow> 'd \<Rightarrow> thrown + cursor"
  db_exec :: "string \<Rightarrow> 'd \<Rightarrow> thrown option \<times> 'd"
  db_run :: "string \<Rightarrow> jsvalue list \<Rightarrow> 'd \<Rightarrow> thrown option \<times> 'd"
  db_export :: "'d \<Rightarrow> thrown + nat list"
  idb_put :: "StoredDatabaseInfo \<Rightarrow> (string \<rightharpoonup> StoredDatabaseInfo) \<Rightarrow> thrown option"

type_synonym ref = nat

text \<open>What reaches the collaborators, in order.\<close>

datatype call =
    Prepare ref string "jsvalue list"
  | Exec ref string
  | Run ref string "jsvalue list"
  | Export ref
  | Put string

text \<open>
  \<open>ClientDatabaseManager\<close>. \<open>Database\<close> and \<open>DatabaseInfo\<close> objects are shared between
  the \<open>databases\<close> map and the current selection, so the fields hold references and the
  objects live in \<open>dbHeap\<close> and \<open>infoHeap\<close>. \<open>indexedDB\<close> is the object store of
  \<open>indexedDBStorage\<close>, \<open>calls\<close> the record of what was sent to the collaborators.
\<close>

record 'd manager =
  currentDatabase :: "ref option"
  currentDatabaseInfo :: "ref option"
  databases :: "string \<rightharpoonup> (ref option \<times> ref)"
  maxQueryResultRows :: int
  useMemoryOptimizations :: bool
  dbHeap :: "ref \<Rightarrow> 'd"
  infoHeap :: "ref \<Rightarrow> DatabaseInfo"
  indexedDB :: "string \<rightharpoonup> StoredDatabaseInfo"
  calls :: "call list"

definition MAX_SAFE_INTEGER :: int where
  "MAX_SAFE_INTEGER = 9007199254740991"

definition setMaxQueryResultRows :: "'d manager \<Rightarrow> int \<Rightarrow> 'd manager" where
  "setMaxQueryResultRows m maxRows = m\<lparr>maxQueryResultRows := max 100 maxRows\<rparr>"

definition setMemoryOptimizations :: "'d manager \<Rightarrow> bool \<Rightarrow> 'd manager" where
  "setMemoryOptimizations m enabled = m\<lparr>useMemoryOptimizations := enabled\<rparr>"

text \<open>\<open>databaseId\<close> is optional, and the empty string is as false as undefined.\<close>

definition getDatabase :: "'d manager \<Rightarrow> string option \<Rightarrow> thrown + ref" where
  "getDatabase m databaseId =
     (if databaseId \<noteq> None \<and> databaseId \<noteq> Some []
      then
        (case databases m (the databaseId) of
           None \<Rightarrow> Inl (Error (''Database with ID '' @ the databaseId @ '' not found''))
         | Some (db, info) \<Rightarrow>
             (case db of
                None \<Rightarrow> Inl (Error ''Database not loaded in memory'')
              | Some r \<Rightarrow> Inr r))
      else
        (case currentDatabase m of
           None \<Rightarrow> Inl (Error ''No database selected'')
         | Some r \<Rightarrow> Inr r))"

definition getDatabaseInfo :: "'d manager \<Rightarrow> string option \<Rightarrow> thrown + ref" where
  "getDatabaseInfo m databaseId =
     (if databaseId \<noteq> None \<and> databaseId \<noteq> Some []
      then
        (case databases m (the databaseId) of
           None \<Rightarrow> Inl (Error (''Database with ID '' @ the databaseId @ '' not found''))
         | Some (db, info) \<Rightarrow> Inr info)
      else
        (case currentDatabaseInfo m of
           None \<Rightarrow> Inl (Error ''No database selected'')
         | Some r \<Rightarrow> Inr r))"

section \<open>Reading\<close>

record QueryResult =
  columns :: "string list"
  rows :: "jsvalue list list"
  rowCount :: jsvalue
  totalCount :: "jsvalue option"
  limit :: "int option"
  offset :: "int option"

text \<open>A property read: a missing key reads as undefined.\<close>

definition field :: "jsrecord \<Rightarrow> string \<Rightarrow> jsvalue" where
  "field r k = (case map_of r k of None \<Rightarrow> JUndefined | Some v \<Rightarrow> v)"

text \<open>
  \<open>while (stmt.step() && rowCount < maxRows) { rows.push(...); rowCount++ }\<close>: the step
  is taken before the count is compared, so the row that ends the loop is stepped over and
  not kept. The statement is returned as the loop leaves it.
\<close>

fun collectRows ::
  "cursor \<Rightarrow> jsvalue list list \<Rightarrow> int \<Rightarrow> int \<Rightarrow> thrown + (jsvalue list list \<times> int \<times> cursor)" where
  "collectRows Done rs rowCount' maxRows = Inr (rs, rowCount', Done)"
| "collectRows (Throws e) rs rowCount' maxRows = Inl e"
| "collectRows (Row r rest) rs rowCount' maxRows =
     (if rowCount' < maxRows
      then collectRows rest (rs @ [map snd r]) (rowCount' + 1) maxRows
      else Inr (rs, rowCount', rest))"

text \<open>
  The body of the \<open>try\<close> of \<open>executeQuery\<close>. After the loop,
  \<open>if (rowCount >= maxRows && stmt.step())\<close> steps the statement once more only when the
  ceiling was reached; that step decides a console warning and nothing else, unless it
  throws.
\<close>

definition executeQuery_try :: "'d environment \<Rightarrow> 'd manager \<Rightarrow> ref \<Rightarrow> string \<Rightarrow> thrown + QueryResult" where
  "executeQuery_try E m db query =
     (case db_prepare E query [] (dbHeap m db) of
        Inl e \<Rightarrow> Inl e
      | Inr stmt \<Rightarrow>
          (case (case stmt of
                   Throws e \<Rightarrow> Inl e
                 | Done \<Rightarrow> Inr ([], [], 0)
                 | Row firstRow rest \<Rightarrow>
                     (let maxRows = (if useMemoryOptimizations m then maxQueryResultRows m
                                     else MAX_SAFE_INTEGER)
                      in
                      case collectRows rest [map snd firstRow] 1 maxRows of
                        Inl e \<Rightarrow> Inl e
                      | Inr (rs, rowCount', stmt') \<Rightarrow>
                          (case (if rowCount' \<ge> maxRows then stmt' else Done) of
                             Throws e \<Rightarrow> Inl e
                           | _ \<Rightarrow> Inr (map fst firstRow, rs, rowCount')))) of
             Inl e \<Rightarrow> Inl e
           | Inr (cols, rs, rowCount') \<Rightarrow>
               Inr \<lparr>columns = cols,
                    rows = rs,
                    rowCount = JNumber (int (length rs)),
                    totalCount =
                      Some (JNumber
                        (if rowCount' \<ge> (if useMemoryOptimizations m then maxQueryResultRows m
                                           else MAX_SAFE_INTEGER)
                         then - 1 else int (length rs))),
                    limit = None, offset = None\<rparr>))"

definition executeQuery ::
  "'d environment \<Rightarrow> 'd manager \<Rightarrow> string \<Rightarrow> string option \<Rightarrow> (thrown + QueryResult) \<times> 'd manager" where
  "executeQuery E m query databaseId =
     (case getDatabase m databaseId of
        Inl e \<Rightarrow> (Inl e, m)
      | Inr db \<Rightarrow>
          (let m' = m\<lparr>calls := calls m @ [Prepare db query []]\<rparr> in
           case executeQuery_try E m db query of
             Inl e \<Rightarrow>
               (Inl (Error (''SQL Error: '' @ (case e of Error msg \<Rightarrow> msg | NonError \<Rightarrow> ''Unknown error''))), m')
           | Inr r \<Rightarrow> (Inr r, m')))"

text \<open>\<open>while (stmt.step()) { ... stmt.getAsObject() ... }\<close>: every row, or the throw.\<close>

fun allRows :: "cursor \<Rightarrow> thrown + jsrecord list" where
  "allRows Done = Inr []"
| "allRows (Throws e) = Inl e"
| "allRows (Row r rest) = (case allRows rest of Inl e \<Rightarrow> Inl e | Inr rs \<Rightarrow> Inr (r # rs))"

text \<open>The fields are casts of what the row object holds, so they are values.\<close>

record ColumnInfo =
  cid :: jsvalue
  col_name :: jsvalue
  col_type :: jsvalue
  notnull :: jsvalue
  dflt_value :: jsvalue
  pk :: jsvalue

definition getTableColumns ::
  "'d environment \<Rightarrow> 'd manager \<Rightarrow> string \<Rightarrow> string option \<Rightarrow> (thrown + ColumnInfo list) \<times> 'd manager" where
  "getTableColumns E m tableName databaseId =
     (case getDatabase m databaseId of
        Inl e \<Rightarrow> (Inl e, m)
      | Inr db \<Rightarrow>
          (let sql = ''PRAGMA table_info('' @ quoteIdentifier tableName @ '')'';
               m' = m\<lparr>calls := calls m @ [Prepare db sql []]\<rparr>
           in
           case (case db_prepare E sql [] (dbHeap m db) of
                   Inl e \<Rightarrow> Inl e
                 | Inr stmt \<Rightarrow> allRows stmt) of
             Inl e \<Rightarrow> (Inl (Error (''Failed to retrieve columns for table '' @ tableName)), m')
           | Inr rs \<Rightarrow>
               (Inr (map (\<lambda>row.
                       \<lparr>cid = field row ''cid'', col_name = field row ''name'',
                        col_type = field row ''type'', notnull = field row ''notnull'',
                        dflt_value = field row ''dflt_value'', pk = field row ''pk''\<rparr>) rs),
                m')))"

text \<open>
  \<open>getTableData\<close>; the defaults of \<open>limit\<close> (100) and \<open>offset\<close> (0) are for the
  caller to apply. The count statement is stepped once and read whatever the step returned;
  with no current row sql.js reads every column as undefined.
\<close>

definition getTableData ::
  "'d environment \<Rightarrow> 'd manager \<Rightarrow> string \<Rightarrow> int \<Rightarrow> int \<Rightarrow> string option \<Rightarrow>
     (thrown + QueryResult) \<times> 'd manager" where
  "getTableData E m tableName limit0 offset0 databaseId =
     (case getDatabase m databaseId of
        Inl e \<Rightarrow> (Inl e, m)
      | Inr db \<Rightarrow>
          (let limit' = (if useMemoryOptimizations m then min limit0 (maxQueryResultRows m) else limit0);
               failed = Error (''Failed to retrieve data from table '' @ tableName);
               countSql = ''SELECT COUNT(*) as count FROM '' @ quoteIdentifier tableName;
               dataSql = ''SELECT rowid as '' @ quoteIdentifier INTERNAL_ROWID_COLUMN @ '', * FROM ''
                           @ quoteIdentifier tableName @ '' LIMIT ? OFFSET ?'';
               counted = (\<not> useMemoryOptimizations m \<or> limit' \<le> 1000);
               m1 = (if counted then m\<lparr>calls := calls m @ [Prepare db countSql []]\<rparr> else m)
           in
           case (if counted
                 then (case db_prepare E countSql [] (dbHeap m db) of
                         Inl e \<Rightarrow> Inl e
                       | Inr countStmt \<Rightarrow>
                           (case countStmt of
                              Throws e \<Rightarrow> Inl e
                            | Done \<Rightarrow> Inr JUndefined
                            | Row countResult rest \<Rightarrow> Inr (field countResult ''count'')))
                 else Inr (JNumber (- 1))) of
             Inl e \<Rightarrow> (Inl failed, m1)
           | Inr totalRows \<Rightarrow>
               (let m2 = m1\<lparr>calls := calls m1 @ [Prepare db dataSql [JNumber limit', JNumber offset0]]\<rparr>
                in
                case (case db_prepare E dataSql [JNumber limit', JNumber offset0] (dbHeap m db) of
                        Inl e \<Rightarrow> Inl e
                      | Inr dataStmt \<Rightarrow> allRows dataStmt) of
                  Inl e \<Rightarrow> (Inl failed, m2)
                | Inr rs \<Rightarrow>
                    (Inr \<lparr>columns = (case rs of [] \<Rightarrow> [] | firstRow # _ \<Rightarrow> map fst firstRow),
                          rows = map (map snd) rs,
                          rowCount = totalRows,
                          totalCount = Some totalRows,
                          limit = Some limit',
                          offset = Some offset0\<rparr>,
                     m2))))"

section \<open>Mutation\<close>

text \<open>
  \<open>persistDatabaseChanges\<close>: export the image, put it in the object store under the
  database's id, then record the new size in the shared \<open>DatabaseInfo\<close> object. A throw of
  \<open>export\<close> or a rejected put leaves the rest undone.
\<close>

definition persistDatabaseChanges ::
  "'d environment \<Rightarrow> 'd manager \<Rightarrow> ref \<Rightarrow> ref \<Rightarrow> (thrown + unit) \<times> 'd manager" where
  "persistDatabaseChanges E m info db =
     (let m1 = m\<lparr>calls := calls m @ [Export db]\<rparr> in
      case db_export E (dbHeap m db) of
        Inl e \<Rightarrow> (Inl e, m1)
      | Inr buf \<Rightarrow>
          (let i = infoHeap m info;
               storedInfo = \<lparr>stored_id = info_id i, stored_name = info_name i,
                             stored_size = int (length buf), stored_uploadedAt = uploadedAt i,
                             buffer = buf\<rparr>;
               m2 = m1\<lparr>calls := calls m1 @ [Put (info_id i)]\<rparr>
           in
           case idb_put E storedInfo (indexedDB m) of
             Some e \<Rightarrow> (Inl e, m2)
           | None \<Rightarrow>
               (Inr (),
                m2\<lparr>indexedDB := (indexedDB m)(info_id i \<mapsto> storedInfo),
                    infoHeap := (infoHeap m)(info := i\<lparr>info_size := int (length buf)\<rparr>)\<rparr>)))"

text \<open>
  The three mutators end in the same block, modelled once:
  \<open>db.exec('BEGIN TRANSACTION;'); try { db.run(sql, params); db.exec('COMMIT;'); await
  this.persistDatabaseChanges(info, db); } catch (error) { try { db.exec('ROLLBACK;'); }
  catch {} throw error; }\<close>. \<open>BEGIN\<close> stands before the \<open>try\<close>: its throw is not
  followed by a rollback.
\<close>

definition runCommitPersist ::
  "'d environment \<Rightarrow> 'd manager \<Rightarrow> ref \<Rightarrow> ref \<Rightarrow> string \<Rightarrow> jsvalue list \<Rightarrow> (thrown + unit) \<times> 'd manager" where
  "runCommitPersist E m db info sql params =
     (let (ran, d1) = db_run E sql params (dbHeap m db);
          m1 = m\<lparr>dbHeap := (dbHeap m)(db := d1), calls := calls m @ [Run db sql params]\<rparr>
      in
      case ran of
        Some e \<Rightarrow> (Inl e, m1)
      | None \<Rightarrow>
          (let (committed, d2) = db_exec E ''COMMIT;'' (dbHeap m1 db);
               m2 = m1\<lparr>dbHeap := (dbHeap m1)(db := d2), calls := calls m1 @ [Exec db ''COMMIT;'']\<rparr>
           in
           case committed of
             Some e \<Rightarrow> (Inl e, m2)
           | None \<Rightarrow> persistDatabaseChanges E m2 info db))"

definition inTransaction ::
  "'d environment \<Rightarrow> 'd manager \<Rightarrow> ref \<Rightarrow> ref \<Rightarrow> string \<Rightarrow> jsvalue list \<Rightarrow> (thrown + unit) \<times> 'd manager" where
  "inTransaction E m db info sql params =
     (let (begun, d1) = db_exec E ''BEGIN TRANSACTION;'' (dbHeap m db);
          m1 = m\<lparr>dbHeap := (dbHeap m)(db := d1), calls := calls m @ [Exec db ''BEGIN TRANSACTION;'']\<rparr>
      in
      case begun of
        Some e \<Rightarrow> (Inl e, m1)
      | None \<Rightarrow>
          (case runCommitPersist E m1 db info sql params of
             (Inr u, m2) \<Rightarrow> (Inr (), m2)
           | (Inl error, m2) \<Rightarrow>
               (let (rolledBack, d3) = db_exec E ''ROLLBACK;'' (dbHeap m2 db) in
                (Inl error,
                 m2\<lparr>dbHeap := (dbHeap m2)(db := d3), calls := calls m2 @ [Exec db ''ROLLBACK;'']\<rparr>))))"

text \<open>The statement and the parameters each mutator hands to \<open>db.run\<close>.\<close>

definition insertStatement :: "string \<Rightarrow> jsrecord \<Rightarrow> string \<times> jsvalue list" where
  "insertStatement tableName entries =
     (if length entries = 0
      then (''INSERT INTO '' @ quoteIdentifier tableName @ '' DEFAULT VALUES'', [])
      else
        (let columnsSql = join '', '' (map (\<lambda>(col, _). quoteIdentifier col) entries);
             placeholders = join '', '' (map (\<lambda>_. ''?'') entries);
             params = map (\<lambda>(_, v). normalizeValue v) entries
         in (''INSERT INTO '' @ quoteIdentifier tableName @ '' ('' @ columnsSql @ '') VALUES (''
               @ placeholders @ '')'',
             params)))"

definition updateStatement :: "string \<Rightarrow> RowIdentifier option \<Rightarrow> jsrecord \<Rightarrow> string \<times> jsvalue list" where
  "updateStatement tableName identifier entries =
     (let setClause = join '', '' (map (\<lambda>(col, _). quoteIdentifier col @ '' = ?'') entries);
          params = map (\<lambda>(_, v). normalizeValue v) entries;
          wh = buildWhereClause identifier
      in (''UPDATE '' @ quoteIdentifier tableName @ '' SET '' @ setClause @ '' WHERE '' @ fst wh,
          params @ snd wh))"

definition deleteStatement :: "string \<Rightarrow> RowIdentifier option \<Rightarrow> string \<times> jsvalue list" where
  "deleteStatement tableName identifier =
     (let wh = buildWhereClause identifier
      in (''DELETE FROM '' @ quoteIdentifier tableName @ '' WHERE '' @ fst wh, snd wh))"

definition insertRow ::
  "'d environment \<Rightarrow> 'd manager \<Rightarrow> string \<Rightarrow> jsrecord \<Rightarrow> string option \<Rightarrow> (thrown + unit) \<times> 'd manager" where
  "insertRow E m tableName rowValues databaseId =
     (case getDatabase m databaseId of
        Inl e \<Rightarrow> (Inl e, m)
      | Inr db \<Rightarrow>
          (case getDatabaseInfo m databaseId of
             Inl e \<Rightarrow> (Inl e, m)
           | Inr info \<Rightarrow>
               (let entries = filter (\<lambda>(key, _). key \<noteq> INTERNAL_ROWID_COLUMN) rowValues;
                    stmt = insertStatement tableName entries
                in inTransaction E m db info (fst stmt) (snd stmt))))"

definition updateRow ::
  "'d environment \<Rightarrow> 'd manager \<Rightarrow> string \<Rightarrow> RowIdentifier option \<Rightarrow> jsrecord \<Rightarrow> string option \<Rightarrow>
     (thrown + unit) \<times> 'd manager" where
  "updateRow E m tableName identifier rowValues databaseId =
     (case getDatabase m databaseId of
        Inl e \<Rightarrow> (Inl e, m)
      | Inr db \<Rightarrow>
          (case getDatabaseInfo m databaseId of
             Inl e \<Rightarrow> (Inl e, m)
           | Inr info \<Rightarrow>
               (let entries = filter (\<lambda>(key, _). key \<noteq> INTERNAL_ROWID_COLUMN) rowValues in
                if length entries = 0 then (Inr (), m)
                else
                  (let stmt = updateStatement tableName identifier entries;
                       wh = buildWhereClause identifier
                   in
                   if fst wh = []
                   then (Inl (Error ''Unable to determine row identifier for update''), m)
                   else inTransaction E m db info (fst stmt) (snd stmt)))))"

definition deleteRow ::
  "'d environment \<Rightarrow> 'd manager \<Rightarrow> string \<Rightarrow> RowIdentifier option \<Rightarrow> string option \<Rightarrow>
     (thrown + unit) \<times> 'd manager" where
  "deleteRow E m tableName identifier databaseId =
     (case getDatabase m databaseId of
        Inl e \<Rightarrow> (Inl e, m)
      | Inr db \<Rightarrow>
          (case getDatabaseInfo m databaseId of
             Inl e \<Rightarrow> (Inl e, m)
           | Inr info \<Rightarrow>
               (let wh = buildWhereClause identifier in
                if fst wh = []
                then (Inl (Error ''Unable to determine row identifier for deletion''), m)
                else
                  (let stmt = deleteStatement tableName identifier
                   in inTransaction E m db info (fst stmt) (snd stmt)))))"

text \<open>
  The SQL semantics of the engine are outside the repository. Where a theorem is about the
  rows after a rollback it assumes this of the engine, for an observation \<open>tableRows\<close> of
  the database: rolling back after a statement failed inside a transaction gives the rows
  as they were when the transaction began, whether or not the rollback itself reports an
  error.
\<close>

definition rollbackRestores :: "'d environment \<Rightarrow> ('d \<Rightarrow> 'v) \<Rightarrow> bool" where
  "rollbackRestores E tableRows =
     (\<forall>d d1 d2 sql params e.
        db_exec E ''BEGIN TRANSACTION;'' d = (None, d1) \<and> db_run E sql params d1 = (Some e, d2)
          \<longrightarrow> tableRows (snd (db_exec E ''ROLLBACK;'' d2)) = tableRows d)"

section \<open>Browsing: the statements \<open>fetchTableData\<close> composes\<close>

text \<open>
  \<open>DataTableViewer.fetchTableData\<close>, from its entry to the two \<open>executeQuery\<close> calls (or
  the one \<open>getTableData\<close> call). What follows in the source attaches the count to the
  result and updates the component's state; it sends nothing to the engine and is not
  modelled. The component's state the function reads is \<open>viewState\<close>; \<open>sorted_view\<close> is
  the test \<open>sortColumn && sortDirection\<close>. An \<open>Inl\<close> result is what the function's own
  \<open>catch\<close> receives and logs.
\<close>

datatype SortDirection = Asc | Desc

datatype FilterOperator =
  OpEquals | OpIn | OpGt | OpGte | OpLt | OpLte | OpBetween | OpNotNull | OpIsNull

text \<open>
  A filter's values are typed \<open>(string | number | null)[]\<close>. Their numbers come from
  \<open>parseFloat\<close> and from result rows and need not be integers: they are of an arbitrary
  type \<open>'n\<close>, as are the two range bounds.
\<close>

datatype 'n filterValue = FNull | FString string | FNumber 'n

record 'n ColumnFilter =
  columnName :: string
  operator :: FilterOperator
  filterValues :: "'n filterValue list"
  rangeStart :: "'n option"
  rangeEnd :: "'n option"

record viewState =
  itemsPerPage :: int
  sortColumn :: "string option"
  sortDirection :: "SortDirection option"

text \<open>
  JavaScript's own arithmetic and number formatting are parameters of the model:
  \<open>numberText\<close> is the text a template literal gives a filter's number, \<open>integerText\<close> the
  text it gives the page size and the offset, and \<open>pageOffset page itemsPerPage\<close> is
  \<open>(page - 1) * itemsPerPage\<close> as JavaScript computes it.
\<close>

record 'n jsnumbers =
  numberText :: "'n \<Rightarrow> string"
  integerText :: "int \<Rightarrow> string"
  pageOffset :: "int \<Rightarrow> int \<Rightarrow> int"

definition apostrophe :: string where
  "apostrophe = [CHR 0x27]"

text \<open>\<open>s.replace(/'/g, "''")\<close>.\<close>

definition escapeQuotes :: "string \<Rightarrow> string" where
  "escapeQuotes s = concat (map (\<lambda>c. if c = CHR 0x27 then apostrophe @ apostrophe else [c]) s)"

text \<open>\<open>values[0]\<close>: undefined (\<open>None\<close>) on an empty array.\<close>

definition firstValue :: "'n filterValue list \<Rightarrow> 'n filterValue option" where
  "firstValue vs = (case vs of [] \<Rightarrow> None | v # _ \<Rightarrow> Some v)"

text \<open>The text a template literal gives a value: a string is written as it is.\<close>

definition valueText :: "'n jsnumbers \<Rightarrow> 'n filterValue option \<Rightarrow> string" where
  "valueText J v =
     (case v of
        None \<Rightarrow> ''undefined''
      | Some FNull \<Rightarrow> ''null''
      | Some (FString s) \<Rightarrow> s
      | Some (FNumber n) \<Rightarrow> numberText J n)"

definition optionalText :: "'n jsnumbers \<Rightarrow> 'n option \<Rightarrow> string" where
  "optionalText J v = (case v of None \<Rightarrow> ''undefined'' | Some n \<Rightarrow> numberText J n)"

text \<open>
  \<open>typeof v === 'string' ? `'${String(v).replace(/'/g, "''")}'` : v\<close>, then interpolated:
  a string becomes a quoted literal with its quotes doubled, anything else is written as it
  prints.
\<close>

definition inlineValue :: "'n jsnumbers \<Rightarrow> 'n filterValue option \<Rightarrow> string" where
  "inlineValue J v =
     (case v of
        Some (FString s) \<Rightarrow> apostrophe @ escapeQuotes s @ apostrophe
      | _ \<Rightarrow> valueText J v)"

definition filterCondition :: "'n jsnumbers \<Rightarrow> 'n ColumnFilter \<Rightarrow> string" where
  "filterCondition J f =
     (let colName = quoteIdentifier (columnName f); vs = filterValues f in
      case operator f of
        OpEquals \<Rightarrow>
          if firstValue vs = Some FNull then colName @ '' IS NULL''
          else colName @ '' = '' @ inlineValue J (firstValue vs)
      | OpIn \<Rightarrow>
          if length vs > 0
          then
            (let nullValues = filter (\<lambda>v. v = FNull) vs;
                 nonNullValues = filter (\<lambda>v. v \<noteq> FNull) vs;
                 conditions =
                   (if length nonNullValues > 0
                    then [colName @ '' IN (''
                            @ join '', '' (map (\<lambda>v. inlineValue J (Some v)) nonNullValues) @ '')'']
                    else [])
                   @ (if length nullValues > 0 then [colName @ '' IS NULL''] else [])
             in
             if length conditions > 1 then ''('' @ join '' OR '' conditions @ '')''
             else (case conditions of [] \<Rightarrow> [] | c # _ \<Rightarrow> c))
          else []
      | OpGt \<Rightarrow> colName @ '' > '' @ valueText J (firstValue vs)
      | OpGte \<Rightarrow> colName @ '' >= '' @ valueText J (firstValue vs)
      | OpLt \<Rightarrow> colName @ '' < '' @ valueText J (firstValue vs)
      | OpLte \<Rightarrow> colName @ '' <= '' @ valueText J (firstValue vs)
      | OpBetween \<Rightarrow>
          colName @ '' BETWEEN '' @ optionalText J (rangeStart f) @ '' AND ''
            @ optionalText J (rangeEnd f)
      | OpIsNull \<Rightarrow> colName @ '' IS NULL''
      | OpNotNull \<Rightarrow> colName @ '' IS NOT NULL'')"

text \<open>The \<open>LIKE\<close> condition of one column, and of every column; \<open>quoteIdentifier\<close> calls
  \<open>replace\<close> on the name, which is a type error on anything but a string.\<close>

definition likeCondition :: "string \<Rightarrow> string \<Rightarrow> string" where
  "likeCondition escapedSearch name =
     quoteIdentifier name @ '' LIKE '%'' @ escapedSearch @ ''%'' @ apostrophe"

fun likeConditions :: "string \<Rightarrow> ColumnInfo list \<Rightarrow> thrown + string list" where
  "likeConditions escapedSearch [] = Inr []"
| "likeConditions escapedSearch (col # cols) =
     (case col_name col of
        JString name \<Rightarrow>
          (case likeConditions escapedSearch cols of
             Inl e \<Rightarrow> Inl e
           | Inr cs \<Rightarrow> Inr (likeCondition escapedSearch name # cs))
      | _ \<Rightarrow> Inl (Error ''identifier.replace is not a function''))"

definition whereSql :: "string list \<Rightarrow> string" where
  "whereSql whereConditions =
     (if length whereConditions > 0 then '' WHERE '' @ join '' AND '' whereConditions else [])"

definition sorted_view :: "viewState \<Rightarrow> bool" where
  "sorted_view view =
     (case sortColumn view of
        None \<Rightarrow> False
      | Some c \<Rightarrow> c \<noteq> [] \<and> sortDirection view \<noteq> None)"

definition pageQuery :: "'n jsnumbers \<Rightarrow> viewState \<Rightarrow> string \<Rightarrow> int \<Rightarrow> string list \<Rightarrow> string" where
  "pageQuery J view table offset' whereConditions =
     ''SELECT rowid as '' @ quoteIdentifier INTERNAL_ROWID_COLUMN @ '', * FROM '' @ quoteIdentifier table
     @ whereSql whereConditions
     @ (if sorted_view view
        then '' ORDER BY '' @ quoteIdentifier (the (sortColumn view)) @ '' ''
               @ (case the (sortDirection view) of Asc \<Rightarrow> ''ASC'' | Desc \<Rightarrow> ''DESC'')
        else [])
     @ '' LIMIT '' @ integerText J (itemsPerPage view) @ '' OFFSET '' @ integerText J offset'"

definition countQuery :: "string \<Rightarrow> string list \<Rightarrow> string" where
  "countQuery table whereConditions =
     ''SELECT COUNT(*) as count FROM '' @ quoteIdentifier table @ whereSql whereConditions"

definition fetchTableData ::
  "'d environment \<Rightarrow> 'n jsnumbers \<Rightarrow> 'd manager \<Rightarrow> viewState \<Rightarrow> string \<Rightarrow> int \<Rightarrow> string \<Rightarrow>
     'n ColumnFilter list \<Rightarrow> (thrown + QueryResult \<times> QueryResult option) \<times> 'd manager" where
  "fetchTableData E J m view table page search filters =
     (let offset' = pageOffset J page (itemsPerPage view) in
      if search \<noteq> [] \<or> sorted_view view \<or> length filters > 0
      then
        (case (if search \<noteq> []
               then
                 (case getTableColumns E m table None of
                    (Inl e, m1) \<Rightarrow> (Inl e, m1)
                  | (Inr cols, m1) \<Rightarrow>
                      (case likeConditions (escapeQuotes search) cols of
                         Inl e \<Rightarrow> (Inl e, m1)
                       | Inr searchConditions \<Rightarrow>
                           (Inr [''('' @ join '' OR '' searchConditions @ '')''], m1)))
               else (Inr [], m)) of
           (Inl e, m1) \<Rightarrow> (Inl e, m1)
         | (Inr searchPart, m1) \<Rightarrow>
             (let whereConditions =
                    searchPart @ filter (\<lambda>c. c \<noteq> []) (map (filterCondition J) filters) in
              case executeQuery E m1 (pageQuery J view table offset' whereConditions) None of
                (Inl e, m2) \<Rightarrow> (Inl e, m2)
              | (Inr result, m2) \<Rightarrow>
                  (case executeQuery E m2 (countQuery table whereConditions) None of
                     (Inl e, m3) \<Rightarrow> (Inl e, m3)
                   | (Inr countResult, m3) \<Rightarrow> (Inr (result, Some countResult), m3))))
      else
        (case getTableData E m table (itemsPerPage view) offset' None of
           (Inl e, m1) \<Rightarrow> (Inl e, m1)
         | (Inr result, m1) \<Rightarrow> (Inr (result, None), m1)))"

section \<open>A small engine and manager, for concrete instances\<close>

text \<open>
  One table of one integer column. \<open>BEGIN\<close> keeps the rows, \<open>ROLLBACK\<close> restores them;
  a statement with a string parameter is rejected after it has written a row, so that a
  rollback has something to undo.
\<close>

record demo_db =
  live :: "int list"
  saved :: "int list option"

definition demoRow :: "int \<Rightarrow> jsrecord" where
  "demoRow n = [(''__rowid__'', JNumber n), (''v'', JNumber n)]"

definition isString :: "jsvalue \<Rightarrow> bool" where
  "isString v = (case v of JString s \<Rightarrow> True | _ \<Rightarrow> False)"

definition demoEngine :: "demo_db environment" where
  "demoEngine =
     \<lparr>db_prepare = (\<lambda>sql params d.
        if take 15 sql = ''SELECT COUNT(*)''
        then Inr (rowsCursor [[(''count'', JNumber (int (length (live d))))]])
        else if take 6 sql = ''PRAGMA''
        then Inr (rowsCursor [[(''cid'', JNumber 0), (''name'', JString ''v''), (''type'', JString ''INTEGER''),
                               (''notnull'', JNumber 0), (''dflt_value'', JNull), (''pk'', JNumber 0)]])
        else Inr (rowsCursor (map demoRow (live d)))),
      db_exec = (\<lambda>sql d.
        if sql = ''BEGIN TRANSACTION;'' then (None, d\<lparr>saved := Some (live d)\<rparr>)
        else if sql = ''COMMIT;'' then (None, d\<lparr>saved := None\<rparr>)
        else if sql = ''ROLLBACK;''
        then (case saved d of
                None \<Rightarrow> (Some (Error ''cannot rollback - no transaction is active''), d)
              | Some s \<Rightarrow> (None, \<lparr>live = s, saved = None\<rparr>))
        else (None, d)),
      db_run = (\<lambda>sql params d.
        if list_ex isString params
        then (Some (Error ''datatype mismatch''), d\<lparr>live := live d @ [0]\<rparr>)
        else (None, d\<lparr>live := live d @ [int (length (live d)) + 1]\<rparr>)),
      db_export = (\<lambda>d. Inr (map nat (live d))),
      idb_put = (\<lambda>info store. None)\<rparr>"

definition demoManager :: "int list \<Rightarrow> demo_db manager" where
  "demoManager table =
     \<lparr>currentDatabase = Some 0,
      currentDatabaseInfo = Some 0,
      databases = [''1_demo.db'' \<mapsto> (Some 0, 0)],
      maxQueryResultRows = 1000,
      useMemoryOptimizations = True,
      dbHeap = (\<lambda>r. \<lparr>live = table, saved = None\<rparr>),
      infoHeap = (\<lambda>r. \<lparr>info_id = ''1_demo.db'', info_name = ''demo.db'', info_size = 0,
                           uploadedAt = ''2025-01-01T00:00:00.000Z''\<rparr>),
      indexedDB = Map.empty,
      calls = []\<rparr>"


text \<open>
  Numbers for the instances: a filter's number is given by the text it prints as, and
  integers print in decimal digits, as JavaScript prints the page sizes and offsets of the
  instances.
\<close>

fun showNat :: "nat \<Rightarrow> string" where
  "showNat n =
     (if n < 10 then [''0123456789'' ! n]
      else showNat (n div 10) @ [''0123456789'' ! (n mod 10)])"

definition showInt :: "int \<Rightarrow> string" where
  "showInt i = (if i < 0 then ''-'' @ showNat (nat (- i)) else showNat (nat i))"

definition demoNumbers :: "string jsnumbers" where
  "demoNumbers =
     \<lparr>numberText = (\<lambda>text. text),
      integerText = showInt,
      pageOffset = (\<lambda>page perPage. (page - 1) * perPage)\<rparr>"

section \<open>Theorems\<close>

lemma quoteIdentifier_nonempty: "quoteIdentifier c \<noteq> []"
  by (simp add: quoteIdentifier_def)

lemma join_keyClause:
  "join '' AND '' (map (\<lambda>(col, _). quoteIdentifier col @ '' = ?'') kvs) = keyClause kvs"
  by (induction kvs rule: keyClause.induct) simp_all

lemma map_keyParams: "map (normalizeValue \<circ> snd) kvs = keyParams kvs"
  by (induction kvs) auto

lemma keyClause_empty_iff: "keyClause kvs = [] \<longleftrightarrow> kvs = []"
  by (induction kvs rule: keyClause.induct) (simp_all add: quoteIdentifier_nonempty)

lemma buildWhereClause_empty_iff:
  "fst (buildWhereClause identifier) = [] \<longleftrightarrow>
     \<not> carriesRowId identifier \<and> \<not> carriesKeyValues identifier"
  by (auto simp: buildWhereClause_def carriesRowId_def carriesKeyValues_def Let_def
        join_keyClause keyClause_empty_iff split: option.splits)

text \<open>
  C3. For every identifier, \<open>buildWhereClause\<close> returns \<open>rowid = ?\<close> with the row id
  as its one parameter when a native row id is carried; otherwise, when primary-key values
  are carried, the quoted key columns joined as \<open>col1 = ? AND col2 = ? ...\<close> with their
  (coerced) values as parameters in the same order; otherwise the empty clause with no
  parameters. The parameters are as many as the key columns.
\<close>

theorem buildWhereClause_spec:
  "buildWhereClause identifier = whereClauseSpec identifier \<and>
   (carriesKeyValues identifier \<and> \<not> carriesRowId identifier \<longrightarrow>
      length (snd (buildWhereClause identifier)) = length (the (primaryKeyValues (the identifier))) \<and>
      snd (buildWhereClause identifier) =
        map (\<lambda>(col, v). normalizeValue v) (the (primaryKeyValues (the identifier))))"
proof -
  have eq: "buildWhereClause identifier = whereClauseSpec identifier"
    by (auto simp: buildWhereClause_def whereClauseSpec_def carriesRowId_def carriesKeyValues_def
          Let_def join_keyClause map_keyParams split: option.splits)
  have par: "keyParams kvs = map (\<lambda>(col, v). normalizeValue v) kvs" for kvs
    by (induction kvs) auto
  show ?thesis
    unfolding eq by (simp add: whereClauseSpec_def par)
qed

theorem buildWhereClause_spec_witness:
  "buildWhereClause (Some \<lparr>rowid = None,
       primaryKeyValues = Some [(''a'', JNumber 1), (''b'', JBoolean True)]\<rparr>)
     = (''\"a\" = ? AND \"b\" = ?'', [JNumber 1, JNumber 1])"
  using buildWhereClause_spec
    [of "Some \<lparr>rowid = None, primaryKeyValues = Some [(''a'', JNumber 1), (''b'', JBoolean True)]\<rparr>"]
  by (simp add: whereClauseSpec_def carriesRowId_def carriesKeyValues_def quoteIdentifier_def)










text \<open>
  C10. A query whose statement yields no row returns no columns, no rows and
  \<open>rowCount = 0\<close>: the column names are read from the first row only.
\<close>

theorem executeQuery_empty_result:
  assumes "getDatabase m databaseId = Inr db"
    and "db_prepare E query [] (dbHeap m db) = Inr Done"
  shows "\<exists>r. fst (executeQuery E m query databaseId) = Inr r
           \<and> columns r = [] \<and> rows r = [] \<and> rowCount r = JNumber 0"
  using assms by (simp add: executeQuery_def executeQuery_try_def)

theorem executeQuery_empty_result_witness:
  "\<exists>r. fst (executeQuery demoEngine (demoManager []) ''SELECT * FROM t'' None) = Inr r
       \<and> columns r = [] \<and> rows r = [] \<and> rowCount r = JNumber 0"
  by (rule executeQuery_empty_result [where db = 0])
     (simp_all add: demoManager_def demoEngine_def getDatabase_def rowsCursor_def)

lemma allRows_rowsThen_Done: "allRows (rowsThen rs Done) = Inr rs"
  by (induction rs) auto

lemma getDatabase_calls [simp]: "getDatabase (m\<lparr>calls := c\<rparr>) databaseId = getDatabase m databaseId"
  by (simp add: getDatabase_def)

text \<open>
  C6. With memory optimizations enabled, \<open>getTableData\<close> first clamps the requested page
  size to \<open>maxQueryResultRows\<close> and binds the clamped size as the limit. The count
  statement is skipped exactly when the clamped page size exceeds 1000, and then
  \<open>totalCount = -1\<close>; otherwise the count statement is sent first and \<open>totalCount\<close> is the
  \<open>count\<close> it returns. (A clamped size exceeds 1000 only where the ceiling was raised above
  1000: with the default ceiling the count is always taken.)
\<close>

theorem getTableData_count_policy:
  assumes "useMemoryOptimizations m"
    and "getDatabase m databaseId = Inr db"
    and "lim = min limit0 (maxQueryResultRows m)"
    and "countSql = ''SELECT COUNT(*) as count FROM '' @ quoteIdentifier tableName"
    and "dataSql = ''SELECT rowid as '' @ quoteIdentifier INTERNAL_ROWID_COLUMN @ '', * FROM ''
                     @ quoteIdentifier tableName @ '' LIMIT ? OFFSET ?''"
    and "db_prepare E countSql [] (dbHeap m db) = Inr (Row countResult rest)"
    and "db_prepare E dataSql [JNumber lim, JNumber offset0] (dbHeap m db) = Inr (rowsCursor rs)"
  shows "\<exists>r m'. getTableData E m tableName limit0 offset0 databaseId = (Inr r, m')
           \<and> limit r = Some lim
           \<and> rows r = map (map snd) rs
           \<and> (if lim > 1000
               then totalCount r = Some (JNumber (- 1))
                    \<and> calls m' = calls m @ [Prepare db dataSql [JNumber lim, JNumber offset0]]
               else totalCount r = Some (field countResult ''count'')
                    \<and> calls m' = calls m @ [Prepare db countSql [],
                                              Prepare db dataSql [JNumber lim, JNumber offset0]])"
  using assms(1-3,6,7) unfolding assms(4,5)
  by (auto simp add: getTableData_def Let_def rowsCursor_def allRows_rowsThen_Done)

theorem getTableData_count_policy_witness:
  "(\<exists>r m'. getTableData demoEngine (setMaxQueryResultRows (demoManager [1, 2, 3]) 5000) ''t'' 2000 0 None = (Inr r, m')
       \<and> limit r = Some 2000 \<and> totalCount r = Some (JNumber (- 1))
       \<and> calls m' = [Prepare 0 ''SELECT rowid as \"__rowid__\", * FROM \"t\" LIMIT ? OFFSET ?'' [JNumber 2000, JNumber 0]])
   \<and> (\<exists>r m'. getTableData demoEngine (demoManager [1, 2, 3]) ''t'' 5000 0 None = (Inr r, m')
       \<and> limit r = Some 1000 \<and> totalCount r = Some (JNumber 3)
       \<and> calls m' = [Prepare 0 ''SELECT COUNT(*) as count FROM \"t\"'' [],
                      Prepare 0 ''SELECT rowid as \"__rowid__\", * FROM \"t\" LIMIT ? OFFSET ?'' [JNumber 1000, JNumber 0]])"
proof -
  let ?m1 = "setMaxQueryResultRows (demoManager [1, 2, 3]) 5000"
  let ?m2 = "demoManager [1, 2, 3]"
  let ?c = "''SELECT COUNT(*) as count FROM '' @ quoteIdentifier ''t''"
  let ?d = "''SELECT rowid as '' @ quoteIdentifier INTERNAL_ROWID_COLUMN @ '', * FROM ''
                     @ quoteIdentifier ''t'' @ '' LIMIT ? OFFSET ?''"
  have a: "\<exists>r m'. getTableData demoEngine ?m1 ''t'' 2000 0 None = (Inr r, m')
           \<and> limit r = Some 2000
           \<and> rows r = map (map snd) (map demoRow [1, 2, 3])
           \<and> (if (2000::int) > 1000
               then totalCount r = Some (JNumber (- 1))
                    \<and> calls m' = calls ?m1 @ [Prepare 0 ?d [JNumber 2000, JNumber 0]]
               else totalCount r = Some (field [(''count'', JNumber 3)] ''count'')
                    \<and> calls m' = calls ?m1 @ [Prepare 0 ?c [],
                                              Prepare 0 ?d [JNumber 2000, JNumber 0]])"
    by (rule getTableData_count_policy [where rest = Done])
       (simp_all add: setMaxQueryResultRows_def demoManager_def demoEngine_def getDatabase_def
          rowsCursor_def quoteIdentifier_def INTERNAL_ROWID_COLUMN_def)
  have b: "\<exists>r m'. getTableData demoEngine ?m2 ''t'' 5000 0 None = (Inr r, m')
           \<and> limit r = Some 1000
           \<and> rows r = map (map snd) (map demoRow [1, 2, 3])
           \<and> (if (1000::int) > 1000
               then totalCount r = Some (JNumber (- 1))
                    \<and> calls m' = calls ?m2 @ [Prepare 0 ?d [JNumber 1000, JNumber 0]]
               else totalCount r = Some (field [(''count'', JNumber 3)] ''count'')
                    \<and> calls m' = calls ?m2 @ [Prepare 0 ?c [],
                                              Prepare 0 ?d [JNumber 1000, JNumber 0]])"
    by (rule getTableData_count_policy [where rest = Done])
       (simp_all add: demoManager_def demoEngine_def getDatabase_def
          rowsCursor_def quoteIdentifier_def INTERNAL_ROWID_COLUMN_def)
  from a b show ?thesis
    by (auto simp add: setMaxQueryResultRows_def demoManager_def field_def quoteIdentifier_def
          INTERNAL_ROWID_COLUMN_def)
qed

lemma getTableColumns_effect:
  assumes "getDatabase m databaseId = Inr db"
  shows "snd (getTableColumns E m tableName databaseId)
           = m\<lparr>calls := calls m @ [Prepare db (''PRAGMA table_info('' @ quoteIdentifier tableName @ '')'') []]\<rparr>"
  using assms by (simp add: getTableColumns_def Let_def split: sum.splits)

lemma getTableColumns_result_calls:
  "fst (getTableColumns E (m\<lparr>calls := c\<rparr>) tableName databaseId) = fst (getTableColumns E m tableName databaseId)"
  by (simp add: getTableColumns_def Let_def split: sum.splits)

text \<open>
  C8, as amended. \<open>getTableColumns\<close> keeps no cache: every call sends the
  \<open>PRAGMA table_info\<close> statement to the engine, so two consecutive calls with the same
  arguments send it twice; the second call returns what the first returned.
\<close>

theorem getTableColumns_queries_every_call:
  assumes "getDatabase m databaseId = Inr db"
    and "pragma = ''PRAGMA table_info('' @ quoteIdentifier tableName @ '')''"
    and "m1 = snd (getTableColumns E m tableName databaseId)"
    and "m2 = snd (getTableColumns E m1 tableName databaseId)"
  shows "calls m1 = calls m @ [Prepare db pragma []]
       \<and> calls m2 = calls m @ [Prepare db pragma [], Prepare db pragma []]
       \<and> fst (getTableColumns E m1 tableName databaseId) = fst (getTableColumns E m tableName databaseId)"
  using assms
  by (simp add: getTableColumns_effect getTableColumns_result_calls)

theorem getTableColumns_queries_every_call_witness:
  "calls (snd (getTableColumns demoEngine (demoManager [1, 2]) ''t'' None))
     = [Prepare 0 ''PRAGMA table_info(\"t\")'' []]
   \<and> fst (getTableColumns demoEngine (snd (getTableColumns demoEngine (demoManager [1, 2]) ''t'' None)) ''t'' None)
     = fst (getTableColumns demoEngine (demoManager [1, 2]) ''t'' None)"
  using getTableColumns_queries_every_call [of "demoManager [1, 2]" None 0 _ "''t''" _ demoEngine, OF _ refl refl refl]
  by (simp add: demoManager_def getDatabase_def quoteIdentifier_def)

text \<open>
  C8 as stated fails: two consecutive calls for the same table of the same database reach
  the engine's column introspection twice.
\<close>

theorem getTableColumns_not_cached_counterexample:
  "calls (snd (getTableColumns demoEngine
                 (snd (getTableColumns demoEngine (demoManager [1, 2]) ''t'' None)) ''t'' None))
     = [Prepare 0 ''PRAGMA table_info(\"t\")'' [], Prepare 0 ''PRAGMA table_info(\"t\")'' []]"
  by (simp add: getTableColumns_def demoManager_def demoEngine_def getDatabase_def Let_def
        quoteIdentifier_def rowsCursor_def)

text \<open>The successful path of the block the mutators share: commit, export, put, new size.\<close>

lemma inTransaction_commits_and_persists:
  assumes "db_exec E ''BEGIN TRANSACTION;'' (dbHeap m db) = (None, d1)"
    and "db_run E sql params d1 = (None, d2)"
    and "db_exec E ''COMMIT;'' d2 = (None, d3)"
    and "db_export E d3 = Inr buf"
    and "stored = \<lparr>stored_id = info_id (infoHeap m info), stored_name = info_name (infoHeap m info),
                    stored_size = int (length buf), stored_uploadedAt = uploadedAt (infoHeap m info),
                    buffer = buf\<rparr>"
    and "idb_put E stored (indexedDB m) = None"
  shows "inTransaction E m db info sql params =
           (Inr (),
            m\<lparr>dbHeap := (dbHeap m)(db := d3),
              infoHeap := (infoHeap m)(info := (infoHeap m info)\<lparr>info_size := int (length buf)\<rparr>),
              indexedDB := (indexedDB m)(info_id (infoHeap m info) \<mapsto> stored),
              calls := calls m @ [Exec db ''BEGIN TRANSACTION;'', Run db sql params, Exec db ''COMMIT;'',
                                  Export db, Put (info_id (infoHeap m info))]\<rparr>)"
  using assms(1-4,6) unfolding assms(5)
  by (simp add: inTransaction_def runCommitPersist_def persistDatabaseChanges_def Let_def)

lemma inTransaction_run_fails:
  assumes "db_exec E ''BEGIN TRANSACTION;'' (dbHeap m db) = (None, d1)"
    and "db_run E sql params d1 = (Some e, d2)"
  shows "inTransaction E m db info sql params =
           (Inl e,
            m\<lparr>dbHeap := (dbHeap m)(db := snd (db_exec E ''ROLLBACK;'' d2)),
              calls := calls m @ [Exec db ''BEGIN TRANSACTION;'', Run db sql params, Exec db ''ROLLBACK;'']\<rparr>)"
  using assms
  by (simp add: inTransaction_def runCommitPersist_def Let_def split: prod.splits)

text \<open>
  C1, as amended. With an identifier that carries neither a row id nor primary-key values,
  \<open>deleteRow\<close> always raises, and \<open>updateRow\<close> raises whenever the value map has a usable
  entry; neither sends a statement, begins a transaction or persists anything: the manager,
  with its databases, its object store and its record of calls, is exactly as before.
\<close>

theorem invalid_identifier_never_reaches_engine:
  assumes "\<not> carriesRowId identifier" and "\<not> carriesKeyValues identifier"
  shows "snd (deleteRow E m tableName identifier databaseId) = m
       \<and> isl (fst (deleteRow E m tableName identifier databaseId))
       \<and> snd (updateRow E m tableName identifier rowValues databaseId) = m
       \<and> (filter (\<lambda>(key, _). key \<noteq> INTERNAL_ROWID_COLUMN) rowValues \<noteq> [] \<longrightarrow>
            isl (fst (updateRow E m tableName identifier rowValues databaseId)))"
proof -
  have w: "fst (buildWhereClause identifier) = []"
    using assms by (simp add: buildWhereClause_empty_iff)
  show ?thesis
    by (simp add: deleteRow_def updateRow_def w Let_def split: sum.splits)
qed

theorem invalid_identifier_never_reaches_engine_witness:
  "deleteRow demoEngine (demoManager [1, 2]) ''t'' (Some \<lparr>rowid = None, primaryKeyValues = Some []\<rparr>) None
     = (Inl (Error ''Unable to determine row identifier for deletion''), demoManager [1, 2])
   \<and> updateRow demoEngine (demoManager [1, 2]) ''t'' (Some \<lparr>rowid = None, primaryKeyValues = Some []\<rparr>)
        [(''v'', JNumber 7)] None
     = (Inl (Error ''Unable to determine row identifier for update''), demoManager [1, 2])"
  using invalid_identifier_never_reaches_engine
    [of "Some \<lparr>rowid = None, primaryKeyValues = Some []\<rparr>" demoEngine "demoManager [1, 2]" "''t''" None
        "[(''v'', JNumber 7)]"]
  by (simp add: carriesRowId_def carriesKeyValues_def deleteRow_def updateRow_def buildWhereClause_def
        getDatabase_def getDatabaseInfo_def demoManager_def INTERNAL_ROWID_COLUMN_def prod_eq_iff)

text \<open>
  C1 as stated fails for \<open>updateRow\<close>: the test for an empty value map comes before the
  test of the identifier, so with an invalid identifier and no usable entry the call returns
  without raising.
\<close>

theorem updateRow_invalid_identifier_counterexample:
  "\<not> carriesRowId (Some \<lparr>rowid = None, primaryKeyValues = None\<rparr>)
   \<and> \<not> carriesKeyValues (Some \<lparr>rowid = None, primaryKeyValues = None\<rparr>)
   \<and> fst (buildWhereClause (Some \<lparr>rowid = None, primaryKeyValues = None\<rparr>)) = []
   \<and> fst (updateRow demoEngine (demoManager [1, 2]) ''t'' (Some \<lparr>rowid = None, primaryKeyValues = None\<rparr>)
            [(''__rowid__'', JNumber 1)] None) = Inr ()"
  by (simp add: carriesRowId_def carriesKeyValues_def updateRow_def buildWhereClause_def
        getDatabase_def getDatabaseInfo_def demoManager_def INTERNAL_ROWID_COLUMN_def)

text \<open>
  C7. For every table and identifier, \<open>updateRow\<close> with a value map that is empty or has the
  synthetic row-identifier column as its only key sends nothing to the engine, begins no
  transaction and persists nothing (the manager is unchanged), and returns successfully on
  the database the call resolves.
\<close>

theorem updateRow_noop:
  assumes "set (map fst rowValues) \<subseteq> {INTERNAL_ROWID_COLUMN}"
  shows "snd (updateRow E m tableName identifier rowValues databaseId) = m
       \<and> (getDatabase m databaseId = Inr db \<and> getDatabaseInfo m databaseId = Inr info \<longrightarrow>
            updateRow E m tableName identifier rowValues databaseId = (Inr (), m))"
proof -
  have "filter (\<lambda>(key, _). key \<noteq> INTERNAL_ROWID_COLUMN) rowValues = []"
    using assms by (auto simp: filter_empty_conv)
  then show ?thesis
    by (simp add: updateRow_def Let_def split: sum.splits)
qed

theorem updateRow_noop_witness:
  "updateRow demoEngine (demoManager [1, 2]) ''t'' (Some \<lparr>rowid = Some 1, primaryKeyValues = None\<rparr>)
     [(''__rowid__'', JNumber 1)] None = (Inr (), demoManager [1, 2])
   \<and> calls (demoManager [1, 2]) = []"
  using updateRow_noop [of "[(''__rowid__'', JNumber 1)]" demoEngine "demoManager [1, 2]" "''t''"
      "Some \<lparr>rowid = Some 1, primaryKeyValues = None\<rparr>" None 0 0]
  by (simp add: INTERNAL_ROWID_COLUMN_def getDatabase_def getDatabaseInfo_def demoManager_def)

text \<open>
  C2. When \<open>BEGIN\<close> succeeded and the statement of \<open>insertRow\<close>, \<open>updateRow\<close> or
  \<open>deleteRow\<close> then fails, the mutator sends \<open>ROLLBACK\<close>, ignores what the rollback
  reports and raises the statement's own error; nothing is exported or stored. On an engine
  whose rollback restores the rows, the rows of the database are those from before the call.
\<close>

theorem failed_statement_rolls_back:
  assumes "rollbackRestores E tableRows"
    and "getDatabase m databaseId = Inr db"
    and "getDatabaseInfo m databaseId = Inr info"
    and "db_exec E ''BEGIN TRANSACTION;'' (dbHeap m db) = (None, d1)"
    and "db_run E sql params d1 = (Some e, d2)"
    and "entries = filter (\<lambda>(key, _). key \<noteq> INTERNAL_ROWID_COLUMN) rowValues"
    and "call = insertRow E m tableName rowValues databaseId
           \<and> insertStatement tableName entries = (sql, params)
         \<or> call = updateRow E m tableName identifier rowValues databaseId
           \<and> entries \<noteq> [] \<and> fst (buildWhereClause identifier) \<noteq> []
           \<and> updateStatement tableName identifier entries = (sql, params)
         \<or> call = deleteRow E m tableName identifier databaseId
           \<and> fst (buildWhereClause identifier) \<noteq> []
           \<and> deleteStatement tableName identifier = (sql, params)"
  shows "fst call = Inl e
       \<and> calls (snd call) = calls m @ [Exec db ''BEGIN TRANSACTION;'', Run db sql params, Exec db ''ROLLBACK;'']
       \<and> tableRows (dbHeap (snd call) db) = tableRows (dbHeap m db)
       \<and> (\<forall>r. r \<noteq> db \<longrightarrow> dbHeap (snd call) r = dbHeap m r)
       \<and> indexedDB (snd call) = indexedDB m
       \<and> infoHeap (snd call) = infoHeap m"
proof -
  have restored: "tableRows (snd (db_exec E ''ROLLBACK;'' d2)) = tableRows (dbHeap m db)"
    using assms(1,4,5) unfolding rollbackRestores_def by blast
  have call: "call = inTransaction E m db info sql params"
    using assms(2,3,6,7)
    by (auto simp: insertRow_def updateRow_def deleteRow_def Let_def)
  show ?thesis
    unfolding call inTransaction_run_fails [OF assms(4,5)]
    using restored by simp
qed

theorem failed_statement_rolls_back_witness:
  "rollbackRestores demoEngine live
   \<and> fst (updateRow demoEngine (demoManager [1, 2]) ''t'' (Some \<lparr>rowid = Some 1, primaryKeyValues = None\<rparr>)
            [(''v'', JString ''x'')] None) = Inl (Error ''datatype mismatch'')
   \<and> calls (snd (updateRow demoEngine (demoManager [1, 2]) ''t''
                     (Some \<lparr>rowid = Some 1, primaryKeyValues = None\<rparr>) [(''v'', JString ''x'')] None))
       = [Exec 0 ''BEGIN TRANSACTION;'',
          Run 0 ''UPDATE \"t\" SET \"v\" = ? WHERE rowid = ?'' [JString ''x'', JNumber 1],
          Exec 0 ''ROLLBACK;'']
   \<and> live (dbHeap (snd (updateRow demoEngine (demoManager [1, 2]) ''t''
                     (Some \<lparr>rowid = Some 1, primaryKeyValues = None\<rparr>) [(''v'', JString ''x'')] None)) 0)
       = [1, 2]"
proof -
  let ?ident = "Some \<lparr>rowid = Some 1, primaryKeyValues = None\<rparr>"
  let ?vals = "[(''v'', JString ''x'')]"
  let ?call = "updateRow demoEngine (demoManager [1, 2]) ''t'' ?ident ?vals None"
  let ?sql = "''UPDATE \"t\" SET \"v\" = ? WHERE rowid = ?''"
  let ?params = "[JString ''x'', JNumber 1]"
  have rr: "rollbackRestores demoEngine live"
    by (auto simp: rollbackRestores_def demoEngine_def split: if_splits)
  have db: "getDatabase (demoManager [1, 2]) None = Inr 0"
    and info: "getDatabaseInfo (demoManager [1, 2]) None = Inr 0"
    by (simp_all add: getDatabase_def getDatabaseInfo_def demoManager_def)
  have bg: "db_exec demoEngine ''BEGIN TRANSACTION;'' (dbHeap (demoManager [1, 2]) 0)
              = (None, \<lparr>live = [1, 2], saved = Some [1, 2]\<rparr>)"
    by (simp add: demoEngine_def demoManager_def)
  have rn: "db_run demoEngine ?sql ?params \<lparr>live = [1, 2], saved = Some [1, 2]\<rparr>
              = (Some (Error ''datatype mismatch''), \<lparr>live = [1, 2, 0], saved = Some [1, 2]\<rparr>)"
    by (simp add: demoEngine_def isString_def)
  have en: "?vals = filter (\<lambda>(key, _). key \<noteq> INTERNAL_ROWID_COLUMN) ?vals"
    by (simp add: INTERNAL_ROWID_COLUMN_def)
  have st: "?call = insertRow demoEngine (demoManager [1, 2]) ''t'' ?vals None
           \<and> insertStatement ''t'' ?vals = (?sql, ?params)
         \<or> ?call = updateRow demoEngine (demoManager [1, 2]) ''t'' ?ident ?vals None
           \<and> ?vals \<noteq> [] \<and> fst (buildWhereClause ?ident) \<noteq> []
           \<and> updateStatement ''t'' ?ident ?vals = (?sql, ?params)
         \<or> ?call = deleteRow demoEngine (demoManager [1, 2]) ''t'' ?ident None
           \<and> fst (buildWhereClause ?ident) \<noteq> []
           \<and> deleteStatement ''t'' ?ident = (?sql, ?params)"
    by (simp add: updateStatement_def buildWhereClause_def quoteIdentifier_def)
  from failed_statement_rolls_back [OF rr db info bg rn en st] rr
  show ?thesis
    by (simp add: demoManager_def)
qed

lemma sublist_join: "x \<in> set xs \<Longrightarrow> sublist x (join sep xs)"
proof (induction sep xs rule: join.induct)
  case (3 sep a b ys)
  show ?case
  proof (cases "x = a")
    case True
    then show ?thesis by (simp add: sublist_append)
  next
    case False
    with 3 have "sublist x (join sep (b # ys))" by simp
    then show ?thesis by (simp add: sublist_append)
  qed
qed simp_all

lemma sublist_wrap: "sublist x y \<Longrightarrow> sublist x (a @ y @ b)"
proof -
  assume "sublist x y"
  then obtain ps ss where "y = ps @ x @ ss" by (auto simp: sublist_def)
  then have "a @ y @ b = (a @ ps) @ x @ (ss @ b)" by simp
  then show ?thesis unfolding sublist_def by blast
qed

lemma sublist_whereSql:
  assumes "sublist x c" and "c \<in> set conds"
  shows "sublist x (whereSql conds)"
proof -
  have ne: "conds \<noteq> []" using assms(2) by auto
  have "sublist c (join '' AND '' conds)" using assms(2) by (rule sublist_join)
  then obtain ps ss where "join '' AND '' conds = ps @ c @ ss" by (auto simp: sublist_def)
  then have "sublist x (join '' AND '' conds)"
    using sublist_wrap [OF assms(1), of ps ss] by simp
  then have "sublist x ('' WHERE '' @ join '' AND '' conds @ [])"
    by (rule sublist_wrap)
  then show ?thesis using ne by (simp add: whereSql_def)
qed

lemma sublist_in_pageQuery:
  assumes "sublist x c" and "c \<in> set conds"
  shows "sublist x (pageQuery J view table off conds)"
proof -
  have "sublist x (whereSql conds)" using assms by (rule sublist_whereSql)
  then have "sublist x
      ((''SELECT rowid as '' @ quoteIdentifier INTERNAL_ROWID_COLUMN @ '', * FROM '' @ quoteIdentifier table)
       @ whereSql conds
       @ ((if sorted_view view
           then '' ORDER BY '' @ quoteIdentifier (the (sortColumn view)) @ '' ''
                  @ (case the (sortDirection view) of Asc \<Rightarrow> ''ASC'' | Desc \<Rightarrow> ''DESC'')
           else [])
          @ '' LIMIT '' @ integerText J (itemsPerPage view) @ '' OFFSET '' @ integerText J off))"
    by (rule sublist_wrap)
  then show ?thesis
    by (simp add: pageQuery_def)
qed

lemma likeConditions_names:
  "map col_name cols = map JString names \<Longrightarrow>
     likeConditions esc cols = Inr (map (likeCondition esc) names)"
  by (induction cols arbitrary: names) auto

lemma executeQuery_effect:
  assumes "getDatabase m databaseId = Inr db"
  shows "snd (executeQuery E m query databaseId) = m\<lparr>calls := calls m @ [Prepare db query []]\<rparr>"
  using assms by (simp add: executeQuery_def Let_def split: sum.splits)

lemma getTableColumns_rows:
  assumes "getDatabase m databaseId = Inr db"
    and "db_prepare E (''PRAGMA table_info('' @ quoteIdentifier tableName @ '')'') [] (dbHeap m db)
           = Inr (rowsCursor prs)"
  shows "\<exists>cols. fst (getTableColumns E m tableName databaseId) = Inr cols
           \<and> map col_name cols = map (\<lambda>r. field r ''name'') prs"
  using assms by (simp add: getTableColumns_def Let_def rowsCursor_def allRows_rowsThen_Done comp_def)


lemma sublist_mid: "sublist x (a @ x @ b)"
  unfolding sublist_def by blast

lemma inlineValue_cases:
  "inlineValue J (Some v) =
     (case v of
        FString s \<Rightarrow> apostrophe @ escapeQuotes s @ apostrophe
      | FNumber n \<Rightarrow> numberText J n
      | FNull \<Rightarrow> ''null'')"
  by (cases v) (simp_all add: inlineValue_def valueText_def)

lemma filterCondition_in:
  assumes "operator f = OpIn" and "filter (\<lambda>v. v \<noteq> FNull) (filterValues f) \<noteq> []"
  shows "sublist (quoteIdentifier (columnName f) @ '' IN (''
                    @ join '', '' (map (\<lambda>v. inlineValue J (Some v))
                                      (filter (\<lambda>v. v \<noteq> FNull) (filterValues f))) @ '')'')
           (filterCondition J f)"
proof -
  let ?c = "quoteIdentifier (columnName f) @ '' IN (''
              @ join '', '' (map (\<lambda>v. inlineValue J (Some v))
                                (filter (\<lambda>v. v \<noteq> FNull) (filterValues f))) @ '')''"
  have ne: "filterValues f \<noteq> []" using assms(2) by auto
  show ?thesis
  proof (cases "filter (\<lambda>v. v = FNull) (filterValues f) = []")
    case True
    then have "filterCondition J f = [] @ ?c @ []"
      using assms ne by (simp add: filterCondition_def Let_def)
    then show ?thesis by (simp only: sublist_mid)
  next
    case False
    then have "filterCondition J f
                 = ''('' @ ?c @ ('' OR '' @ quoteIdentifier (columnName f) @ '' IS NULL'' @ '')'')"
      using assms ne by (simp add: filterCondition_def Let_def)
    then show ?thesis by (simp only: sublist_mid)
  qed
qed

lemma getTableData_calls:
  assumes "getDatabase m databaseId = Inr db"
  shows "\<exists>new. calls (snd (getTableData E m tableName limit0 offset0 databaseId)) = calls m @ new
           \<and> (\<forall>c \<in> set new.
                 c = Prepare db (''SELECT COUNT(*) as count FROM '' @ quoteIdentifier tableName) []
               \<or> c = Prepare db (''SELECT rowid as '' @ quoteIdentifier INTERNAL_ROWID_COLUMN
                                   @ '', * FROM '' @ quoteIdentifier tableName @ '' LIMIT ? OFFSET ?'')
                       [JNumber (if useMemoryOptimizations m then min limit0 (maxQueryResultRows m)
                                 else limit0),
                        JNumber offset0])"
  using assms
  by (auto simp add: getTableData_def Let_def split: sum.splits cursor.splits)

text \<open>
  C4, as amended. A browse request with search text, a sort or filters binds no value: what
  it sends are the column introspection (when there is search text), the page query and,
  when the page query succeeded, the count query, each with an empty parameter list. The
  search text stands in the SQL text itself, its single quotes doubled, as
  \<open>"col" LIKE '%text%'\<close> once for every column of the table. Filter values stand
  in the text too: for \<open>equals\<close> and \<open>in\<close> a string as a quoted literal with its quotes
  doubled and a number as it prints; for \<open>gt\<close>, \<open>gte\<close>, \<open>lt\<close> and \<open>lte\<close> the first
  value as it prints, a string neither quoted nor escaped; for \<open>between\<close> the two bounds
  as they print. A request with no search text, sort or filter sends only the statements
  of \<open>getTableData\<close>, whose text is built from the table name alone and whose clamped page
  size and offset are bound parameters.
\<close>

theorem fetchTableData_values_are_interpolated:
  assumes "getDatabase m None = Inr db"
    and "pragma = ''PRAGMA table_info('' @ quoteIdentifier table @ '')''"
    and "search \<noteq> [] \<longrightarrow>
           db_prepare E pragma [] (dbHeap m db) = Inr (rowsCursor prs)
           \<and> map (\<lambda>r. field r ''name'') prs = map JString names"
    and "conds = (if search \<noteq> []
                  then [''('' @ join '' OR '' (map (likeCondition (escapeQuotes search)) names) @ '')'']
                  else [])
                 @ filter (\<lambda>c. c \<noteq> []) (map (filterCondition J) filters)"
    and "off = pageOffset J page (itemsPerPage view)"
    and "q = pageQuery J view table off conds"
    and "sent = (if search \<noteq> [] then [Prepare db pragma []] else []) @ [Prepare db q []]"
    and "lim = (if useMemoryOptimizations m then min (itemsPerPage view) (maxQueryResultRows m)
                else itemsPerPage view)"
    and "m' = snd (fetchTableData E J m view table page search filters)"
  shows "(search \<noteq> [] \<or> sorted_view view \<or> filters \<noteq> [] \<longrightarrow>
            (calls m' = calls m @ sent
             \<or> calls m' = calls m @ sent @ [Prepare db (countQuery table conds) []])
          \<and> (search \<noteq> [] \<longrightarrow>
               (\<forall>name \<in> set names.
                  sublist (quoteIdentifier name @ '' LIKE '%'' @ escapeQuotes search @ ''%'' @ apostrophe) q))
          \<and> (\<forall>f \<in> set filters. \<forall>col. col = quoteIdentifier (columnName f) \<longrightarrow>
                (\<forall>s. operator f = OpEquals \<and> firstValue (filterValues f) = Some (FString s) \<longrightarrow>
                   sublist (col @ '' = '' @ apostrophe @ escapeQuotes s @ apostrophe) q)
              \<and> (\<forall>n. operator f = OpEquals \<and> firstValue (filterValues f) = Some (FNumber n) \<longrightarrow>
                   sublist (col @ '' = '' @ numberText J n) q)
              \<and> (operator f = OpIn \<and> filter (\<lambda>v. v \<noteq> FNull) (filterValues f) \<noteq> [] \<longrightarrow>
                   sublist (col @ '' IN (''
                              @ join '', ''
                                  (map (\<lambda>v. case v of
                                               FString s \<Rightarrow> apostrophe @ escapeQuotes s @ apostrophe
                                             | FNumber n \<Rightarrow> numberText J n
                                             | FNull \<Rightarrow> ''null'')
                                       (filter (\<lambda>v. v \<noteq> FNull) (filterValues f)))
                              @ '')'') q)
              \<and> (\<forall>cmp. (operator f, cmp) \<in> {(OpGt, '' > ''), (OpGte, '' >= ''),
                                                  (OpLt, '' < ''), (OpLte, '' <= '')} \<longrightarrow>
                   (\<forall>s. firstValue (filterValues f) = Some (FString s) \<longrightarrow> sublist (col @ cmp @ s) q)
                 \<and> (\<forall>n. firstValue (filterValues f) = Some (FNumber n) \<longrightarrow>
                        sublist (col @ cmp @ numberText J n) q))
              \<and> (\<forall>a b. operator f = OpBetween \<and> rangeStart f = Some a \<and> rangeEnd f = Some b \<longrightarrow>
                   sublist (col @ '' BETWEEN '' @ numberText J a @ '' AND '' @ numberText J b) q)))
       \<and> (search = [] \<and> \<not> sorted_view view \<and> filters = [] \<longrightarrow>
            (\<exists>new. calls m' = calls m @ new
               \<and> (\<forall>c \<in> set new.
                     c = Prepare db (''SELECT COUNT(*) as count FROM '' @ quoteIdentifier table) []
                   \<or> c = Prepare db (''SELECT rowid as '' @ quoteIdentifier INTERNAL_ROWID_COLUMN
                                       @ '', * FROM '' @ quoteIdentifier table @ '' LIMIT ? OFFSET ?'')
                           [JNumber lim, JNumber off])))"
proof (intro conjI impI)
  assume composed: "search \<noteq> [] \<or> sorted_view view \<or> filters \<noteq> []"
  let ?pre = "if search \<noteq> [] then [Prepare db pragma []] else []"
  let ?sp = "if search \<noteq> []
             then [''('' @ join '' OR '' (map (likeCondition (escapeQuotes search)) names) @ '')'']
             else []"
  let ?m1 = "m\<lparr>calls := calls m @ ?pre\<rparr>"
  have part: "(if search \<noteq> []
               then
                 (case getTableColumns E m table None of
                    (Inl e, m1) \<Rightarrow> (Inl e, m1)
                  | (Inr cols, m1) \<Rightarrow>
                      (case likeConditions (escapeQuotes search) cols of
                         Inl e \<Rightarrow> (Inl e, m1)
                       | Inr searchConditions \<Rightarrow>
                           (Inr [''('' @ join '' OR '' searchConditions @ '')''], m1)))
               else (Inr [], m)) = (Inr ?sp, ?m1)"
  proof (cases "search = []")
    case True
    then show ?thesis by simp
  next
    case False
    then have pr: "db_prepare E (''PRAGMA table_info('' @ quoteIdentifier table @ '')'') [] (dbHeap m db)
                     = Inr (rowsCursor prs)"
      and nm: "map (\<lambda>r. field r ''name'') prs = map JString names"
      using assms(3) unfolding assms(2) by simp_all
    obtain cols where cols: "fst (getTableColumns E m table None) = Inr cols"
      and names: "map col_name cols = map JString names"
      using getTableColumns_rows [OF assms(1) pr] nm by auto
    have m1: "getTableColumns E m table None = (Inr cols, ?m1)"
      using cols getTableColumns_effect [OF assms(1), of E table] False unfolding assms(2)
      by (simp add: prod_eq_iff)
    have lk: "likeConditions (escapeQuotes search) cols
                = Inr (map (likeCondition (escapeQuotes search)) names)"
      using names by (rule likeConditions_names)
    show ?thesis using False m1 lk by simp
  qed
  have db1: "getDatabase ?m1 None = Inr db" using assms(1) by simp
  let ?m2 = "?m1\<lparr>calls := calls ?m1 @ [Prepare db q []]\<rparr>"
  have e1: "snd (executeQuery E ?m1 q None) = ?m2"
    using executeQuery_effect [OF db1] by simp
  have db2: "getDatabase ?m2 None = Inr db" using assms(1) by simp
  have e2: "snd (executeQuery E ?m2 (countQuery table conds) None)
              = ?m2\<lparr>calls := calls ?m2 @ [Prepare db (countQuery table conds) []]\<rparr>"
    using executeQuery_effect [OF db2] by simp
  have composed': "search \<noteq> [] \<or> sorted_view view \<or> length filters > 0"
    using composed by simp
  show "calls m' = calls m @ sent
          \<or> calls m' = calls m @ sent @ [Prepare db (countQuery table conds) []]"
  proof (cases "executeQuery E ?m1 q None")
    case (Pair r1 s1)
    then have s1: "s1 = ?m2" using e1 by simp
    show ?thesis
    proof (cases r1)
      case (Inl e)
      then show ?thesis
        using composed' Pair s1
        unfolding assms(9) fetchTableData_def part assms(7)
        unfolding assms(6) assms(5) assms(4)
        by (simp add: Let_def)
    next
      case (Inr res)
      obtain r2 s2 where p2: "executeQuery E ?m2 (countQuery table conds) None = (r2, s2)"
        by (cases "executeQuery E ?m2 (countQuery table conds) None") auto
      then have s2: "s2 = ?m2\<lparr>calls := calls ?m2 @ [Prepare db (countQuery table conds) []]\<rparr>"
        using e2 by simp
      show ?thesis
        using composed' Pair s1 Inr p2 s2
        unfolding assms(9) fetchTableData_def part assms(7)
        unfolding assms(6) assms(5) assms(4)
        by (simp add: Let_def split: sum.splits)
    qed
  qed
next
  assume s: "search \<noteq> []"
  show "\<forall>name \<in> set names.
          sublist (quoteIdentifier name @ '' LIKE '%'' @ escapeQuotes search @ ''%'' @ apostrophe) q"
  proof
    fix name assume "name \<in> set names"
    then have "likeCondition (escapeQuotes search) name
                 \<in> set (map (likeCondition (escapeQuotes search)) names)"
      by simp
    then have "sublist (likeCondition (escapeQuotes search) name)
                 (join '' OR '' (map (likeCondition (escapeQuotes search)) names))"
      by (rule sublist_join)
    then have "sublist (likeCondition (escapeQuotes search) name)
                 (''('' @ join '' OR '' (map (likeCondition (escapeQuotes search)) names) @ '')'')"
      by (rule sublist_wrap)
    then have "sublist (likeCondition (escapeQuotes search) name) q"
      unfolding assms(6) by (rule sublist_in_pageQuery) (simp add: assms(4) s)
    then show "sublist (quoteIdentifier name @ '' LIKE '%'' @ escapeQuotes search @ ''%'' @ apostrophe) q"
      by (simp add: likeCondition_def)
  qed
next
  show "\<forall>f \<in> set filters. \<forall>col. col = quoteIdentifier (columnName f) \<longrightarrow>
                (\<forall>s. operator f = OpEquals \<and> firstValue (filterValues f) = Some (FString s) \<longrightarrow>
                   sublist (col @ '' = '' @ apostrophe @ escapeQuotes s @ apostrophe) q)
              \<and> (\<forall>n. operator f = OpEquals \<and> firstValue (filterValues f) = Some (FNumber n) \<longrightarrow>
                   sublist (col @ '' = '' @ numberText J n) q)
              \<and> (operator f = OpIn \<and> filter (\<lambda>v. v \<noteq> FNull) (filterValues f) \<noteq> [] \<longrightarrow>
                   sublist (col @ '' IN (''
                              @ join '', ''
                                  (map (\<lambda>v. case v of
                                               FString s \<Rightarrow> apostrophe @ escapeQuotes s @ apostrophe
                                             | FNumber n \<Rightarrow> numberText J n
                                             | FNull \<Rightarrow> ''null'')
                                       (filter (\<lambda>v. v \<noteq> FNull) (filterValues f)))
                              @ '')'') q)
              \<and> (\<forall>cmp. (operator f, cmp) \<in> {(OpGt, '' > ''), (OpGte, '' >= ''),
                                                  (OpLt, '' < ''), (OpLte, '' <= '')} \<longrightarrow>
                   (\<forall>s. firstValue (filterValues f) = Some (FString s) \<longrightarrow> sublist (col @ cmp @ s) q)
                 \<and> (\<forall>n. firstValue (filterValues f) = Some (FNumber n) \<longrightarrow>
                        sublist (col @ cmp @ numberText J n) q))
              \<and> (\<forall>a b. operator f = OpBetween \<and> rangeStart f = Some a \<and> rangeEnd f = Some b \<longrightarrow>
                   sublist (col @ '' BETWEEN '' @ numberText J a @ '' AND '' @ numberText J b) q)"
  proof (intro ballI allI impI conjI)
    fix f col
    assume f: "f \<in> set filters" and col: "col = quoteIdentifier (columnName f)"
    have inq: "sublist x q" if "sublist x (filterCondition J f)" and "filterCondition J f \<noteq> []" for x
    proof -
      have "filterCondition J f \<in> set conds" using f that(2) by (simp add: assms(4))
      with that(1) show ?thesis unfolding assms(6) by (rule sublist_in_pageQuery)
    qed
    have whole: "sublist x q" if "filterCondition J f = x" and "x \<noteq> []" for x
      using inq [of x] that sublist_mid [of x "[]" "[]"] by simp
    have cne: "col \<noteq> []" using col by (simp add: quoteIdentifier_nonempty)
    have eqs: "sublist (col @ '' = '' @ apostrophe @ escapeQuotes s @ apostrophe) q"
      if "operator f = OpEquals \<and> firstValue (filterValues f) = Some (FString s)" for s
      using that cne col
      by (intro whole) (simp_all add: filterCondition_def Let_def inlineValue_def)
    have eqn: "sublist (col @ '' = '' @ numberText J n) q"
      if "operator f = OpEquals \<and> firstValue (filterValues f) = Some (FNumber n)" for n
      using that cne col
      by (intro whole) (simp_all add: filterCondition_def Let_def inlineValue_def valueText_def)
    have inl: "sublist (col @ '' IN (''
                              @ join '', ''
                                  (map (\<lambda>v. case v of
                                               FString s \<Rightarrow> apostrophe @ escapeQuotes s @ apostrophe
                                             | FNumber n \<Rightarrow> numberText J n
                                             | FNull \<Rightarrow> ''null'')
                                       (filter (\<lambda>v. v \<noteq> FNull) (filterValues f)))
                              @ '')'') q"
      if h: "operator f = OpIn \<and> filter (\<lambda>v. v \<noteq> FNull) (filterValues f) \<noteq> []"
    proof -
      from h have o: "operator f = OpIn" and nn: "filter (\<lambda>v. v \<noteq> FNull) (filterValues f) \<noteq> []"
        by simp_all
      have sub: "sublist (col @ '' IN (''
                              @ join '', ''
                                  (map (\<lambda>v. case v of
                                               FString s \<Rightarrow> apostrophe @ escapeQuotes s @ apostrophe
                                             | FNumber n \<Rightarrow> numberText J n
                                             | FNull \<Rightarrow> ''null'')
                                       (filter (\<lambda>v. v \<noteq> FNull) (filterValues f)))
                              @ '')'') (filterCondition J f)"
        using filterCondition_in [OF o nn, of J] unfolding col inlineValue_cases .
      then have "filterCondition J f \<noteq> []" using cne by (auto simp: sublist_def)
      with sub show ?thesis by (rule inq)
    qed
    have cmp: "sublist (col @ c @ s) q"
      if "(operator f, c) \<in> {(OpGt, '' > ''), (OpGte, '' >= ''), (OpLt, '' < ''), (OpLte, '' <= '')}"
        and "firstValue (filterValues f) = Some (FString s)" for c s
      using that cne col
      by (intro whole) (auto simp add: filterCondition_def Let_def valueText_def)
    have cmpn: "sublist (col @ c @ numberText J n) q"
      if "(operator f, c) \<in> {(OpGt, '' > ''), (OpGte, '' >= ''), (OpLt, '' < ''), (OpLte, '' <= '')}"
        and "firstValue (filterValues f) = Some (FNumber n)" for c n
      using that cne col
      by (intro whole) (auto simp add: filterCondition_def Let_def valueText_def)
    have btw: "sublist (col @ '' BETWEEN '' @ numberText J a @ '' AND '' @ numberText J b) q"
      if "operator f = OpBetween \<and> rangeStart f = Some a \<and> rangeEnd f = Some b" for a b
      using that cne col
      by (intro whole) (simp_all add: filterCondition_def Let_def optionalText_def)
    show "sublist (col @ '' = '' @ apostrophe @ escapeQuotes s @ apostrophe) q"
      if "operator f = OpEquals \<and> firstValue (filterValues f) = Some (FString s)" for s
      using that by (rule eqs)
    show "sublist (col @ '' = '' @ numberText J n) q"
      if "operator f = OpEquals \<and> firstValue (filterValues f) = Some (FNumber n)" for n
      using that by (rule eqn)
    show "sublist (col @ '' IN (''
                              @ join '', ''
                                  (map (\<lambda>v. case v of
                                               FString s \<Rightarrow> apostrophe @ escapeQuotes s @ apostrophe
                                             | FNumber n \<Rightarrow> numberText J n
                                             | FNull \<Rightarrow> ''null'')
                                       (filter (\<lambda>v. v \<noteq> FNull) (filterValues f)))
                              @ '')'') q"
      if "operator f = OpIn \<and> filter (\<lambda>v. v \<noteq> FNull) (filterValues f) \<noteq> []"
      using that by (rule inl)
    show "sublist (col @ c @ s) q"
      if "(operator f, c) \<in> {(OpGt, '' > ''), (OpGte, '' >= ''), (OpLt, '' < ''), (OpLte, '' <= '')}"
        and "firstValue (filterValues f) = Some (FString s)" for c s
      using that by (rule cmp)
    show "sublist (col @ c @ numberText J n) q"
      if "(operator f, c) \<in> {(OpGt, '' > ''), (OpGte, '' >= ''), (OpLt, '' < ''), (OpLte, '' <= '')}"
        and "firstValue (filterValues f) = Some (FNumber n)" for c n
      using that by (rule cmpn)
    show "sublist (col @ '' BETWEEN '' @ numberText J a @ '' AND '' @ numberText J b) q"
      if "operator f = OpBetween \<and> rangeStart f = Some a \<and> rangeEnd f = Some b" for a b
      using that by (rule btw)
  qed
next
  assume plain: "search = [] \<and> \<not> sorted_view view \<and> filters = []"
  have "m' = snd (getTableData E m table (itemsPerPage view) off None)"
    using plain unfolding assms(9) assms(5)
    by (simp add: fetchTableData_def Let_def split: prod.splits sum.splits)
  then show "\<exists>new. calls m' = calls m @ new
               \<and> (\<forall>c \<in> set new.
                     c = Prepare db (''SELECT COUNT(*) as count FROM '' @ quoteIdentifier table) []
                   \<or> c = Prepare db (''SELECT rowid as '' @ quoteIdentifier INTERNAL_ROWID_COLUMN
                                       @ '', * FROM '' @ quoteIdentifier table @ '' LIMIT ? OFFSET ?'')
                           [JNumber lim, JNumber off])"
    using getTableData_calls [OF assms(1), of E table "itemsPerPage view" off]
    unfolding assms(8) by simp
qed

theorem fetchTableData_values_are_interpolated_witness:
  "(let q = ''SELECT rowid as \"__rowid__\", * FROM \"t\" WHERE (\"v\" LIKE '%zq%'' @ apostrophe
              @ '') AND \"v\" >= 10.5 AND \"w\" = 'o'' @ apostrophe @ apostrophe @ ''k'' @ apostrophe
              @ '' LIMIT 50 OFFSET 0''
    in sublist (''\"v\" LIKE '%zq%'' @ apostrophe) q
     \<and> sublist ''\"v\" >= 10.5'' q
     \<and> sublist (''\"w\" = 'o'' @ apostrophe @ apostrophe @ ''k'' @ apostrophe) q)"
proof -
  let ?view = "\<lparr>itemsPerPage = 50, sortColumn = None, sortDirection = None\<rparr>"
  let ?f1 = "\<lparr>columnName = ''v'', operator = OpGte, filterValues = [FNumber ''10.5''],
              rangeStart = None, rangeEnd = None\<rparr>"
  let ?f2 = "\<lparr>columnName = ''w'', operator = OpEquals,
              filterValues = [FString (''o'' @ apostrophe @ ''k'')],
              rangeStart = None, rangeEnd = None\<rparr>"
  let ?row = "[(''cid'', JNumber 0), (''name'', JString ''v''), (''type'', JString ''INTEGER''),
               (''notnull'', JNumber 0), (''dflt_value'', JNull), (''pk'', JNumber 0)]"
  let ?conds = "(if ''zq'' \<noteq> []
                 then [''('' @ join '' OR '' (map (likeCondition (escapeQuotes ''zq'')) [''v'']) @ '')'']
                 else [])
                @ filter (\<lambda>c. c \<noteq> []) (map (filterCondition demoNumbers) [?f1, ?f2])"
  let ?q = "pageQuery demoNumbers ?view ''t'' (pageOffset demoNumbers 1 (itemsPerPage ?view)) ?conds"
  have db: "getDatabase (demoManager [1, 2]) None = Inr 0"
    by (simp add: getDatabase_def demoManager_def)
  have pr: "''zq'' \<noteq> [] \<longrightarrow>
              db_prepare demoEngine (''PRAGMA table_info('' @ quoteIdentifier ''t'' @ '')'') []
                (dbHeap (demoManager [1, 2]) 0) = Inr (rowsCursor [?row])
              \<and> map (\<lambda>r. field r ''name'') [?row] = map JString [''v'']"
    by (simp add: demoEngine_def field_def)
  note T = fetchTableData_values_are_interpolated
             [where E = demoEngine and J = demoNumbers and filters = "[?f1, ?f2]" and view = ?view
                and page = 1 and search = "''zq''" and table = "''t''",
              OF db refl pr refl refl refl refl refl refl]
  have like: "sublist (quoteIdentifier ''v'' @ '' LIKE '%'' @ escapeQuotes ''zq'' @ ''%'' @ apostrophe) ?q"
    using T by simp
  have gte: "sublist (quoteIdentifier ''v'' @ '' >= '' @ numberText demoNumbers ''10.5'') ?q"
    using T by (simp add: firstValue_def)
  have eq: "sublist (quoteIdentifier ''w'' @ '' = '' @ apostrophe
                       @ escapeQuotes (''o'' @ apostrophe @ ''k'') @ apostrophe) ?q"
    using T by (simp add: firstValue_def)
  have q: "?q = ''SELECT rowid as \"__rowid__\", * FROM \"t\" WHERE (\"v\" LIKE '%zq%'' @ apostrophe
              @ '') AND \"v\" >= 10.5 AND \"w\" = 'o'' @ apostrophe @ apostrophe @ ''k'' @ apostrophe
              @ '' LIMIT 50 OFFSET 0''"
    by (simp add: pageQuery_def whereSql_def sorted_view_def likeCondition_def escapeQuotes_def
          quoteIdentifier_def filterCondition_def firstValue_def inlineValue_def valueText_def
          demoNumbers_def showInt_def INTERNAL_ROWID_COLUMN_def apostrophe_def)
  from like gte eq show ?thesis
    unfolding q Let_def
    by (simp add: quoteIdentifier_def escapeQuotes_def demoNumbers_def apostrophe_def)
qed

text \<open>
  C4 as stated fails: the search text \<open>zq\<close> is part of the SQL text of both statements,
  and both are sent with no bound parameter.
\<close>

theorem fetchTableData_interpolates_counterexample:
  "calls (snd (fetchTableData demoEngine demoNumbers (demoManager [1, 2])
                 \<lparr>itemsPerPage = 50, sortColumn = None, sortDirection = None\<rparr> ''t'' 1 ''zq'' []))
     = [Prepare 0 ''PRAGMA table_info(\"t\")'' [],
        Prepare 0 (''SELECT rowid as \"__rowid__\", * FROM \"t\" WHERE (\"v\" LIKE '%zq%'' @ apostrophe
                     @ '') LIMIT 50 OFFSET 0'') [],
        Prepare 0 (''SELECT COUNT(*) as count FROM \"t\" WHERE (\"v\" LIKE '%zq%'' @ apostrophe @ '')'') []]"
  by (simp add: fetchTableData_def getTableColumns_def executeQuery_def executeQuery_try_def
        demoEngine_def demoManager_def getDatabase_def Let_def quoteIdentifier_def rowsCursor_def
        field_def likeCondition_def escapeQuotes_def pageQuery_def countQuery_def whereSql_def
        sorted_view_def showInt_def demoNumbers_def INTERNAL_ROWID_COLUMN_def demoRow_def
        apostrophe_def)

end
